theory Spec2Isabelle
  imports Complex_Main
begin

section \<open>The product store of \<open>main.py\<close>\<close>

text \<open>
  \<open>main.py\<close> is a FastAPI application with five handlers over one SQLAlchemy table,
  \<open>products\<close>, kept in SQLite. The embedding follows the file top to bottom: the table
  row and the request and response models as records and predicates, the storage
  statements a handler issues as functions on the table, each handler as a function that
  takes the table and returns its outcome together with the table it leaves behind, and
  each route as what FastAPI makes of the handler: the request is validated against the
  request model, the handler runs, and what it returns is validated against the
  \<open>response_model\<close> of the route.

  Conventions.
  \<^item> A Python \<open>float\<close> price is a rational number: the handlers only store and compare
    prices, and the comparison of finite doubles is the comparison of the numbers they
    denote. A Python \<open>int\<close> is an \<open>int\<close>; SQLite takes an integer parameter only when
    it fits 64 bits, and the driver raises \<open>OverflowError\<close> when it does not.
  \<^item> The table is the list of its rows in insertion order. Rows get the id SQLite gives
    an \<open>INTEGER PRIMARY KEY\<close> column: one more than the largest id in the table.
  \<^item> An exception is a value of type \<open>error\<close>. FastAPI turns an \<open>HTTPException\<close> and
    the validation failure of a request into an error response. \<open>IntegrityError\<close>,
    \<open>OverflowError\<close> and \<open>TypeError\<close> are exceptions raised inside a handler; the
    validation failure of a response is raised after the handler returned. None of
    these four has an error response of its own.
  \<^item> A handler that raises before \<open>db.commit()\<close> returns, or whose commit fails, leaves
    the table as it found it: \<open>get_db\<close> closes the session on every exit and nothing
    uncommitted survives that. What was committed stays, whatever happens afterwards.
\<close>

subsection \<open>Rows, request models, errors\<close>

datatype error =
    HTTPException int string
  | RequestValidationError
  | ResponseValidationError
  | IntegrityError
  | OverflowError
  | TypeError

text \<open>
  \<open>ProductCreate\<close> (lines 35-40). \<open>description\<close> and \<open>category\<close> are \<open>None\<close> when the
  request body does not mention them.
\<close>

record ProductCreate =
  name :: string
  price :: rat
  quantity :: int
  description :: "string option"
  category :: "string option"

text \<open>
  A row of \<open>products\<close> (lines 23-32): the fields of \<open>ProductCreate\<close> and the id. The
  columns \<open>name\<close>, \<open>price\<close> and \<open>quantity\<close> are \<open>nullable=False\<close>, so a stored row
  always has them; \<open>description\<close> and \<open>category\<close> are \<open>nullable=True\<close>.
\<close>

record Product = ProductCreate +
  product_id :: int

type_synonym table = "Product list"

text \<open>
  \<open>ProductUpdate\<close> (lines 48-53). \<open>product.dict(exclude_unset=True)\<close> keeps exactly the
  fields the request body mentioned, so a field of the payload is either not mentioned
  (\<open>Unset\<close>) or mentioned, with \<open>null\<close> (\<open>Supplied None\<close>) or with a value
  (\<open>Supplied (Some v)\<close>).
\<close>

datatype 'a supplied = Unset | Supplied "'a option"

record ProductUpdate =
  upd_name :: "string supplied"
  upd_price :: "rat supplied"
  upd_quantity :: "int supplied"
  upd_description :: "string supplied"
  upd_category :: "string supplied"

subsection \<open>Constraints declared on the models\<close>

text \<open>
  \<open>Field(..., gt=0)\<close> and \<open>Field(..., ge=0)\<close> on \<open>ProductCreate\<close>. The required fields
  and their types are in the record type.
\<close>

definition ProductCreate_valid :: "ProductCreate \<Rightarrow> bool" where
  "ProductCreate_valid p \<longleftrightarrow> 0 < price p \<and> 0 \<le> quantity p"

text \<open>
  \<open>ProductUpdate\<close>: the fields are annotated \<open>str\<close>, \<open>float\<close> and \<open>int\<close>, and \<open>None\<close> is
  their default only. A field that is mentioned must hold a value of its type, so a
  \<open>null\<close> is refused for each of the five, and \<open>Field(None, gt=0)\<close> and
  \<open>Field(None, ge=0)\<close> bound the price and the quantity that are mentioned.
\<close>

definition ProductUpdate_valid :: "ProductUpdate \<Rightarrow> bool" where
  "ProductUpdate_valid u \<longleftrightarrow>
     upd_name u \<noteq> Supplied None \<and>
     (case upd_price u of Unset \<Rightarrow> True | Supplied None \<Rightarrow> False
      | Supplied (Some v) \<Rightarrow> 0 < v) \<and>
     (case upd_quantity u of Unset \<Rightarrow> True | Supplied None \<Rightarrow> False
      | Supplied (Some q) \<Rightarrow> 0 \<le> q) \<and>
     upd_description u \<noteq> Supplied None \<and>
     upd_category u \<noteq> Supplied None"

text \<open>\<open>Query(None, ge=0)\<close> on the filter of the list operation.\<close>

definition price_gte_valid :: "rat option \<Rightarrow> bool" where
  "price_gte_valid f \<longleftrightarrow> (case f of None \<Rightarrow> True | Some x \<Rightarrow> 0 \<le> x)"

text \<open>
  \<open>ProductResponse\<close> (lines 43-45) inherits the fields and bounds of \<open>ProductCreate\<close>
  and adds the id. \<open>description\<close> and \<open>category\<close> are annotated \<open>str\<close>: a row read from
  the table has both attributes, and one that is \<open>None\<close> is not a \<open>str\<close>.
\<close>

definition ProductResponse_valid :: "Product \<Rightarrow> bool" where
  "ProductResponse_valid r \<longleftrightarrow>
     0 < price r \<and> 0 \<le> quantity r \<and> description r \<noteq> None \<and> category r \<noteq> None"

subsection \<open>Storage\<close>

text \<open>The integers SQLite takes as a parameter.\<close>

definition int64 :: "int \<Rightarrow> bool" where
  "int64 x \<longleftrightarrow> - (2 ^ 63) \<le> x \<and> x < 2 ^ 63"

text \<open>
  \<open>db.query(Product).filter(Product.id == product_id).first()\<close>: the id is a parameter
  of the statement.
\<close>

definition query_first :: "int \<Rightarrow> table \<Rightarrow> error + Product option" where
  "query_first pid db =
     (if int64 pid then Inr (find (\<lambda>r. product_id r = pid) db) else Inl OverflowError)"

definition next_id :: "table \<Rightarrow> int" where
  "next_id db = fold max (map product_id db) 0 + 1"

text \<open>
  \<open>db.add(db_product); db.commit(); db.refresh(db_product)\<close>: the quantity is a
  parameter of the \<open>INSERT\<close>, and binding it comes before the statement runs; the
  statement fails on the constraint \<open>uq_product_name\<close> when a row has the name already.
\<close>

definition insert_commit :: "ProductCreate \<Rightarrow> table \<Rightarrow> error + Product \<times> table" where
  "insert_commit p db =
     (if \<not> int64 (quantity p) then Inl OverflowError
      else if name p \<in> set (map name db) then Inl IntegrityError
      else let r = \<lparr>name = name p, price = price p, quantity = quantity p,
                     description = description p, category = category p,
                     product_id = next_id db\<rparr>
           in Inr (r, db @ [r]))"

text \<open>
  \<open>setattr(db_product, key, value)\<close> for the keys of \<open>update_data\<close>: a field that is not
  a key keeps the attribute's value, a field that is one takes the supplied value.
\<close>

definition setattr_col :: "'a supplied \<Rightarrow> 'a option \<Rightarrow> 'a option" where
  "setattr_col s old = (case s of Unset \<Rightarrow> old | Supplied v \<Rightarrow> v)"

text \<open>
  \<open>db.commit(); db.refresh(db_product)\<close> after the attributes were set: binding the
  quantity comes first; the \<open>UPDATE\<close> of the row with the given id then fails when a
  \<open>nullable=False\<close> column would become \<open>NULL\<close> or when another row has the new name.
\<close>

definition update_commit ::
  "int \<Rightarrow> string option \<Rightarrow> rat option \<Rightarrow> int option \<Rightarrow> string option \<Rightarrow> string option
     \<Rightarrow> table \<Rightarrow> error + Product \<times> table" where
  "update_commit pid n p q d c db =
     (if (case q of Some q' \<Rightarrow> \<not> int64 q' | None \<Rightarrow> False) then Inl OverflowError
      else case (n, p, q) of
        (Some n', Some p', Some q') \<Rightarrow>
          if n' \<in> set (map name (filter (\<lambda>r. product_id r \<noteq> pid) db))
          then Inl IntegrityError
          else let r' = \<lparr>name = n', price = p', quantity = q',
                          description = d, category = c, product_id = pid\<rparr>
               in Inr (r', map (\<lambda>r. if product_id r = pid then r' else r) db)
      | _ \<Rightarrow> Inl IntegrityError)"

text \<open>\<open>db.delete(db_product); db.commit()\<close>\<close>

definition delete_commit :: "int \<Rightarrow> table \<Rightarrow> table" where
  "delete_commit pid db = filter (\<lambda>r. product_id r \<noteq> pid) db"

subsection \<open>The handlers\<close>

text \<open>
  \<open>create_product\<close> (lines 67-82). \<open>not product.name\<close> is true of the empty string only.
  The \<open>HTTPException\<close> raised inside the \<open>try\<close> is neither an \<open>IntegrityError\<close> nor a
  \<open>ValidationError\<close>, so it leaves the handler as it is, and so does every exception of
  the storage other than \<open>IntegrityError\<close>. Nothing in the body raises
  \<open>ValidationError\<close>.
\<close>

definition create_product :: "ProductCreate \<Rightarrow> table \<Rightarrow> (error + Product) \<times> table" where
  "create_product product db =
     (if name product = [] then (Inl (HTTPException 400 ''Product name is required''), db)
      else case insert_commit product db of
             Inl e \<Rightarrow>
               if e = IntegrityError
               then (Inl (HTTPException 400
                       ''Product creation failed due to duplicate name.''), db)
               else (Inl e, db)
           | Inr (db_product, db') \<Rightarrow> (Inr db_product, db'))"

text \<open>
  \<open>get_product\<close> (lines 85-93). The \<open>except ValueError\<close> clause catches nothing the body
  raises: \<open>OverflowError\<close> is not a \<open>ValueError\<close>.
\<close>

definition get_product :: "int \<Rightarrow> table \<Rightarrow> error + Product" where
  "get_product pid db =
     (case query_first pid db of
        Inl e \<Rightarrow> Inl e
      | Inr None \<Rightarrow> Inl (HTTPException 404 ''Product not found'')
      | Inr (Some product) \<Rightarrow> Inr product)"

text \<open>
  The two guards of \<open>update_product\<close> (lines 105 and 107):
  \<open>'price' in update_data and update_data['price'] <= 0\<close>. When the key is there with the
  value \<open>None\<close>, Python's comparison of \<open>None\<close> with \<open>0\<close> raises \<open>TypeError\<close>.
\<close>

definition price_guard :: "rat supplied \<Rightarrow> error + bool" where
  "price_guard s =
     (case s of Unset \<Rightarrow> Inr False
      | Supplied None \<Rightarrow> Inl TypeError
      | Supplied (Some v) \<Rightarrow> Inr (v \<le> 0))"

definition quantity_guard :: "int supplied \<Rightarrow> error + bool" where
  "quantity_guard s =
     (case s of Unset \<Rightarrow> Inr False
      | Supplied None \<Rightarrow> Inl TypeError
      | Supplied (Some v) \<Rightarrow> Inr (v < 0))"

text \<open>\<open>update_product\<close> (lines 96-120).\<close>

definition update_product :: "int \<Rightarrow> ProductUpdate \<Rightarrow> table \<Rightarrow> (error + Product) \<times> table" where
  "update_product pid product db =
     (case query_first pid db of
        Inl e \<Rightarrow> (Inl e, db)
      | Inr None \<Rightarrow> (Inl (HTTPException 404 ''Product not found''), db)
      | Inr (Some db_product) \<Rightarrow>
          (case price_guard (upd_price product) of
             Inl e \<Rightarrow> (Inl e, db)
           | Inr True \<Rightarrow> (Inl (HTTPException 400 ''Price must be greater than 0''), db)
           | Inr False \<Rightarrow>
               (case quantity_guard (upd_quantity product) of
                  Inl e \<Rightarrow> (Inl e, db)
                | Inr True \<Rightarrow>
                    (Inl (HTTPException 400
                       ''Quantity must be greater than or equal to 0''), db)
                | Inr False \<Rightarrow>
                    (case update_commit pid
                            (setattr_col (upd_name product) (Some (name db_product)))
                            (setattr_col (upd_price product) (Some (price db_product)))
                            (setattr_col (upd_quantity product) (Some (quantity db_product)))
                            (setattr_col (upd_description product) (description db_product))
                            (setattr_col (upd_category product) (category db_product))
                            db of
                       Inl e \<Rightarrow>
                         if e = IntegrityError
                         then (Inl (HTTPException 400
                                 ''Product update failed due to integrity error.''), db)
                         else (Inl e, db)
                     | Inr (r, db') \<Rightarrow> (Inr r, db')))))"

text \<open>\<open>delete_product\<close> (lines 123-134); the string is the value of the key \<open>message\<close>.\<close>

definition delete_product :: "int \<Rightarrow> table \<Rightarrow> (error + string) \<times> table" where
  "delete_product pid db =
     (case query_first pid db of
        Inl e \<Rightarrow> (Inl e, db)
      | Inr None \<Rightarrow> (Inl (HTTPException 404 ''Product not found''), db)
      | Inr (Some db_product) \<Rightarrow>
          (Inr ''Product deleted successfully'', delete_commit pid db))"

text \<open>\<open>list_products\<close> (lines 137-148).\<close>

definition list_products :: "rat option \<Rightarrow> table \<Rightarrow> error + Product list" where
  "list_products price_gte db =
     (let products = (case price_gte of
                        None \<Rightarrow> db
                      | Some x \<Rightarrow> filter (\<lambda>r. x \<le> price r) db)
      in if products = [] then Inr [] else Inr products)"

subsection \<open>The routes\<close>

text \<open>
  \<open>response_model=ProductResponse\<close>: the row a handler returns is validated against
  the response model, and a row that fails is not answered.
\<close>

definition serialize_response :: "error + Product \<Rightarrow> error + Product" where
  "serialize_response res =
     (case res of
        Inl e \<Rightarrow> Inl e
      | Inr r \<Rightarrow> if ProductResponse_valid r then Inr r else Inl ResponseValidationError)"

text \<open>\<open>@app.post("/products/", response_model=ProductResponse)\<close>\<close>

definition route_create :: "ProductCreate \<Rightarrow> table \<Rightarrow> (error + Product) \<times> table" where
  "route_create p db =
     (if ProductCreate_valid p
      then (serialize_response (fst (create_product p db)), snd (create_product p db))
      else (Inl RequestValidationError, db))"

text \<open>\<open>@app.get("/products/{product_id}", response_model=ProductResponse)\<close>\<close>

definition route_get :: "int \<Rightarrow> table \<Rightarrow> error + Product" where
  "route_get pid db = serialize_response (get_product pid db)"

text \<open>\<open>@app.put("/products/{product_id}", response_model=ProductResponse)\<close>\<close>

definition route_update :: "int \<Rightarrow> ProductUpdate \<Rightarrow> table \<Rightarrow> (error + Product) \<times> table" where
  "route_update pid u db =
     (if ProductUpdate_valid u
      then (serialize_response (fst (update_product pid u db)), snd (update_product pid u db))
      else (Inl RequestValidationError, db))"

text \<open>\<open>@app.delete("/products/{product_id}", response_model=dict)\<close>\<close>

definition route_delete :: "int \<Rightarrow> table \<Rightarrow> (error + string) \<times> table" where
  "route_delete pid db = delete_product pid db"

text \<open>\<open>@app.get("/products/", response_model=list[ProductResponse])\<close>\<close>

definition route_list :: "rat option \<Rightarrow> table \<Rightarrow> error + Product list" where
  "route_list f db =
     (if price_gte_valid f
      then (case list_products f db of
              Inl e \<Rightarrow> Inl e
            | Inr products \<Rightarrow>
                if list_all ProductResponse_valid products then Inr products
                else Inl ResponseValidationError)
      else Inl RequestValidationError)"

text \<open>A request to the application, the table it leaves behind, and a run of requests.\<close>

datatype request =
    Create ProductCreate
  | Get int
  | Update int ProductUpdate
  | Delete int
  | List "rat option"

fun step :: "request \<Rightarrow> table \<Rightarrow> table" where
  "step (Create p) db = snd (route_create p db)"
| "step (Get pid) db = db"
| "step (Update pid u) db = snd (route_update pid u db)"
| "step (Delete pid) db = snd (route_delete pid db)"
| "step (List f) db = db"

definition run :: "request list \<Rightarrow> table \<Rightarrow> table" where
  "run reqs db = fold step reqs db"

text \<open>
  The error, if any, a request ends in, and the status of the error response FastAPI
  has for it. An exception without one leaves the application unhandled.
\<close>

fun failure :: "request \<Rightarrow> table \<Rightarrow> error option" where
  "failure (Create p) db = (case fst (route_create p db) of Inl e \<Rightarrow> Some e | Inr _ \<Rightarrow> None)"
| "failure (Get pid) db = (case route_get pid db of Inl e \<Rightarrow> Some e | Inr _ \<Rightarrow> None)"
| "failure (Update pid u) db =
     (case fst (route_update pid u db) of Inl e \<Rightarrow> Some e | Inr _ \<Rightarrow> None)"
| "failure (Delete pid) db =
     (case fst (route_delete pid db) of Inl e \<Rightarrow> Some e | Inr _ \<Rightarrow> None)"
| "failure (List f) db = (case route_list f db of Inl e \<Rightarrow> Some e | Inr _ \<Rightarrow> None)"

fun http_status :: "error \<Rightarrow> int option" where
  "http_status (HTTPException code detail) = Some code"
| "http_status RequestValidationError = Some 422"
| "http_status ResponseValidationError = None"
| "http_status IntegrityError = None"
| "http_status OverflowError = None"
| "http_status TypeError = None"

subsection \<open>The row an update leaves\<close>

text \<open>
  What the loop \<open>for key, value in update_data.items(): setattr(db_product, key, value)\<close>
  makes of the row \<open>old\<close> when every value supplied for name, price and quantity is a
  value: a supplied field has the supplied value, every other field the one of \<open>old\<close>.
\<close>

definition updated_row :: "ProductUpdate \<Rightarrow> Product \<Rightarrow> Product" where
  "updated_row u old =
     \<lparr>name = (case upd_name u of Supplied (Some n) \<Rightarrow> n | _ \<Rightarrow> name old),
      price = (case upd_price u of Supplied (Some p) \<Rightarrow> p | _ \<Rightarrow> price old),
      quantity = (case upd_quantity u of Supplied (Some q) \<Rightarrow> q | _ \<Rightarrow> quantity old),
      description = (case upd_description u of Supplied d \<Rightarrow> d | Unset \<Rightarrow> description old),
      category = (case upd_category u of Supplied c \<Rightarrow> c | Unset \<Rightarrow> category old),
      product_id = product_id old\<rparr>"

subsection \<open>The constraints of a stored table\<close>

text \<open>
  Ids are distinct, names are distinct, prices are above 0, quantities are at least 0
  and fit 64 bits.
\<close>

definition table_ok :: "table \<Rightarrow> bool" where
  "table_ok db \<longleftrightarrow>
     distinct (map product_id db) \<and> distinct (map name db) \<and>
     list_all (\<lambda>r. 0 < price r \<and> 0 \<le> quantity r \<and> int64 (quantity r)) db"

subsection \<open>Example data\<close>

text \<open>
  Payloads: \<open>widget\<close> mentions every field; \<open>gadget\<close> leaves the category out;
  \<open>another\<close> is the payload of \<open>test_get_product\<close>, which leaves description and
  category out. \<open>shelf\<close> is the table after \<open>widget\<close> and \<open>gadget\<close> were created.
\<close>

definition widget :: ProductCreate where
  "widget = \<lparr>name = ''Widget'', price = 999/100, quantity = 5,
     description = Some ''A widget'', category = Some ''Tools''\<rparr>"

definition gadget :: ProductCreate where
  "gadget = \<lparr>name = ''Gadget'', price = 3, quantity = 0,
     description = Some ''A gadget'', category = None\<rparr>"

definition bolt :: ProductCreate where
  "bolt = \<lparr>name = ''Bolt'', price = 1/2, quantity = 40,
     description = Some ''A bolt'', category = Some ''Hardware''\<rparr>"

definition another :: ProductCreate where
  "another = \<lparr>name = ''Another Product'', price = 599/100, quantity = 20,
     description = None, category = None\<rparr>"

definition no_update :: ProductUpdate where
  "no_update = \<lparr>upd_name = Unset, upd_price = Unset, upd_quantity = Unset,
     upd_description = Unset, upd_category = Unset\<rparr>"

definition shelf :: table where
  "shelf =
     [\<lparr>name = ''Widget'', price = 999/100, quantity = 5, description = Some ''A widget'',
        category = Some ''Tools'', product_id = 1\<rparr>,
      \<lparr>name = ''Gadget'', price = 3, quantity = 0, description = Some ''A gadget'',
        category = None, product_id = 2\<rparr>]"

section \<open>Properties\<close>

subsection \<open>Lookup and fresh ids\<close>

lemma query_first_int64:
  "int64 pid \<Longrightarrow> query_first pid db = Inr (find (\<lambda>r. product_id r = pid) db)"
  by (simp add: query_first_def)

lemma query_first_wide: "\<not> int64 pid \<Longrightarrow> query_first pid db = Inl OverflowError"
  by (simp add: query_first_def)

lemma query_first_None:
  "query_first pid db = Inr None \<longleftrightarrow> int64 pid \<and> pid \<notin> set (map product_id db)"
  by (auto simp: query_first_def find_None_iff)

lemma query_first_Some:
  "query_first pid db = Inr (Some r) \<Longrightarrow> int64 pid \<and> product_id r = pid \<and> r \<in> set db"
  by (auto simp: query_first_def find_Some_iff split: if_splits)

lemma query_first_stored:
  assumes "int64 pid" and "pid \<in> set (map product_id db)"
  shows "\<exists>r. query_first pid db = Inr (Some r)"
proof (cases "find (\<lambda>r. product_id r = pid) db")
  case None
  with assms(2) show ?thesis by (auto simp: find_None_iff)
next
  case (Some r)
  with assms(1) show ?thesis by (simp add: query_first_def)
qed

lemma fold_max_upper: "(x::int) \<in> set xs \<Longrightarrow> x \<le> fold max xs a"
proof (induction xs arbitrary: a)
  case Nil
  then show ?case by simp
next
  case (Cons y ys)
  have mono: "b \<le> fold max ys b" for b :: int
    by (induction ys arbitrary: b) (auto intro: order_trans [OF max.cobounded2])
  from Cons show ?case
  proof (cases "x = y")
    case True
    have "y \<le> max y a" by simp
    also have "\<dots> \<le> fold max ys (max y a)" by (rule mono)
    finally show ?thesis using True by simp
  next
    case False
    with Cons show ?thesis by simp
  qed
qed

lemma next_id_fresh: "next_id db \<notin> set (map product_id db)"
proof
  assume "next_id db \<in> set (map product_id db)"
  then have "next_id db \<le> fold max (map product_id db) 0"
    by (rule fold_max_upper)
  then show False by (simp add: next_id_def)
qed

lemma shelf_run: "run [Create widget, Create gadget] [] = shelf"
  by (simp add: shelf_def run_def route_create_def create_product_def insert_commit_def
      ProductCreate_valid_def next_id_def widget_def gadget_def int64_def Let_def)


subsection \<open>Create\<close>

text \<open>
  What the handler does with a payload that passed the request model, has a name, a
  quantity that fits 64 bits, and a name no stored row has: it appends one row with the
  submitted fields and an id no stored row has, and returns that row.
\<close>

lemma create_product_stores:
  assumes "name p \<noteq> []" and "int64 (quantity p)" and "name p \<notin> set (map name db)"
  shows "\<exists>r. create_product p db = (Inr r, db @ [r])
           \<and> name r = name p \<and> price r = price p \<and> quantity r = quantity p
           \<and> description r = description p \<and> category r = category p
           \<and> product_id r \<notin> set (map product_id db)"
  using assms next_id_fresh [of db]
  by (simp add: create_product_def insert_commit_def Let_def)

text \<open>
  The route answers with that row when the payload also mentions description and
  category.
\<close>

lemma create_product_succeeds:
  assumes "name p \<noteq> []" and "0 < price p" and "0 \<le> quantity p" and "quantity p < 2 ^ 63"
    and "description p \<noteq> None" and "category p \<noteq> None"
    and "name p \<notin> set (map name db)"
  shows "\<exists>r. route_create p db = (Inr r, db @ [r])
           \<and> name r = name p \<and> price r = price p \<and> quantity r = quantity p
           \<and> description r = description p \<and> category r = category p
           \<and> product_id r \<notin> set (map product_id db)"
proof -
  from assms(3,4) have "int64 (quantity p)" by (simp add: int64_def)
  from create_product_stores [OF assms(1) this assms(7)]
  obtain r where r: "create_product p db = (Inr r, db @ [r])"
    and f: "name r = name p" "price r = price p" "quantity r = quantity p"
      "description r = description p" "category r = category p"
      "product_id r \<notin> set (map product_id db)"
    by blast
  from f assms(2,3,5,6) have "ProductResponse_valid r"
    by (simp add: ProductResponse_valid_def)
  with r assms(2,3) have "route_create p db = (Inr r, db @ [r])"
    by (simp add: route_create_def ProductCreate_valid_def serialize_response_def)
  with f show ?thesis by blast
qed

text \<open>
  C1 fails on the code. The first request of \<open>test_get_product\<close> creates a product
  without description and category on the empty table. The payload passes the request
  model and the handler commits the row and returns it; the row does not pass
  \<open>ProductResponse\<close>, whose \<open>description\<close> and \<open>category\<close> are annotated \<open>str\<close>, so the
  request ends in the validation failure of the response although the row is stored.
  A valid payload whose quantity does not fit 64 bits ends in \<open>OverflowError\<close>, and
  nothing is stored.
\<close>

theorem create_without_description:
  "name another \<noteq> [] \<and> 0 < price another \<and> 0 \<le> quantity another
   \<and> name another \<notin> set (map name [])
   \<and> create_product another [] =
        (Inr \<lparr>name = ''Another Product'', price = 599/100, quantity = 20,
               description = None, category = None, product_id = 1\<rparr>,
         [\<lparr>name = ''Another Product'', price = 599/100, quantity = 20,
               description = None, category = None, product_id = 1\<rparr>])
   \<and> route_create another [] =
        (Inl ResponseValidationError,
         [\<lparr>name = ''Another Product'', price = 599/100, quantity = 20,
               description = None, category = None, product_id = 1\<rparr>])
   \<and> http_status ResponseValidationError = None
   \<and> route_create (widget\<lparr>quantity := 2 ^ 63\<rparr>) [] = (Inl OverflowError, [])
   \<and> http_status OverflowError = None"
  by (simp add: another_def widget_def route_create_def ProductCreate_valid_def
      create_product_def insert_commit_def next_id_def int64_def Let_def
      serialize_response_def ProductResponse_valid_def)




text \<open>
  C6, as the code has it. A create request whose payload is valid and whose name is the
  empty string is rejected with \<open>HTTPException 400\<close> and the detail
  \<open>Product name is required\<close>, by the handler's first statement and so before any
  storage statement: the table is unchanged. The test is \<open>not product.name\<close>, which a
  name of blanks does not meet.
\<close>

theorem create_product_empty_name:
  assumes "name p = []" and "ProductCreate_valid p"
  shows "route_create p db = (Inl (HTTPException 400 ''Product name is required''), db)
         \<and> create_product p db = (Inl (HTTPException 400 ''Product name is required''), db)"
  using assms by (simp add: route_create_def create_product_def serialize_response_def)

theorem create_product_empty_name_witness:
  "name (bolt\<lparr>name := []\<rparr>) = [] \<and> ProductCreate_valid (bolt\<lparr>name := []\<rparr>)
   \<and> route_create (bolt\<lparr>name := []\<rparr>) shelf =
        (Inl (HTTPException 400 ''Product name is required''), shelf)"
  using create_product_empty_name [of "bolt\<lparr>name := []\<rparr>" shelf]
  by (simp add: bolt_def ProductCreate_valid_def)

text \<open>
  C6 as stated also covers a name of blanks. Such a name passes the test: the request
  with the name \<open>" "\<close> on the empty table succeeds and stores a row.
\<close>

theorem create_whitespace_name_counterexample:
  "route_create (bolt\<lparr>name := '' ''\<rparr>) [] =
     (Inr \<lparr>name = '' '', price = 1/2, quantity = 40, description = Some ''A bolt'',
            category = Some ''Hardware'', product_id = 1\<rparr>,
      [\<lparr>name = '' '', price = 1/2, quantity = 40, description = Some ''A bolt'',
            category = Some ''Hardware'', product_id = 1\<rparr>])"
  by (simp add: bolt_def route_create_def ProductCreate_valid_def create_product_def
      insert_commit_def next_id_def int64_def Let_def serialize_response_def
      ProductResponse_valid_def)

subsection \<open>Update\<close>

lemma find_replace:
  "find (\<lambda>r. product_id r = pid) db = Some old \<Longrightarrow> product_id r' = pid \<Longrightarrow>
   find (\<lambda>r. product_id r = pid) (map (\<lambda>r. if product_id r = pid then r' else r) db) = Some r'"
  by (induction db) (auto split: if_splits)

lemma valid_price_guard: "ProductUpdate_valid u \<Longrightarrow> price_guard (upd_price u) = Inr False"
  by (auto simp: ProductUpdate_valid_def price_guard_def split: supplied.splits option.splits)

lemma valid_quantity_guard:
  "ProductUpdate_valid u \<Longrightarrow> quantity_guard (upd_quantity u) = Inr False"
  by (auto simp: ProductUpdate_valid_def quantity_guard_def
      split: supplied.splits option.splits)

text \<open>The attributes of the row after the loop, for a payload the request model accepts.\<close>

lemma valid_setattr:
  assumes "ProductUpdate_valid u"
  shows "setattr_col (upd_name u) (Some (name old)) = Some (name (updated_row u old))"
    and "setattr_col (upd_price u) (Some (price old)) = Some (price (updated_row u old))"
    and "setattr_col (upd_quantity u) (Some (quantity old))
           = Some (quantity (updated_row u old))"
    and "setattr_col (upd_description u) (description old) = description (updated_row u old)"
    and "setattr_col (upd_category u) (category old) = category (updated_row u old)"
  using assms
  by (auto simp: ProductUpdate_valid_def setattr_col_def updated_row_def
      split: supplied.splits option.splits)

lemma updated_row_eq:
  "\<lparr>name = name (updated_row u old), price = price (updated_row u old),
    quantity = quantity (updated_row u old), description = description (updated_row u old),
    category = category (updated_row u old), product_id = product_id old\<rparr> = updated_row u old"
  by (simp add: updated_row_def)

text \<open>
  The handler on a stored row and a payload the request model accepts: the guards of
  lines 105 and 107 pass, no column becomes \<open>NULL\<close>, and what remains is the bound on
  the quantity and the constraint on the name.
\<close>

lemma update_product_valid:
  assumes "query_first pid db = Inr (Some old)" and "ProductUpdate_valid u"
  shows "update_product pid u db =
     (if \<not> int64 (quantity (updated_row u old)) then (Inl OverflowError, db)
      else if name (updated_row u old)
                \<in> set (map name (filter (\<lambda>r. product_id r \<noteq> pid) db))
      then (Inl (HTTPException 400 ''Product update failed due to integrity error.''), db)
      else (Inr (updated_row u old),
            map (\<lambda>r. if product_id r = pid then updated_row u old else r) db))"
proof -
  from query_first_Some [OF assms(1)] have id: "product_id old = pid" by simp
  have uc: "update_commit pid
              (Some (name (updated_row u old))) (Some (price (updated_row u old)))
              (Some (quantity (updated_row u old))) (description (updated_row u old))
              (category (updated_row u old)) db =
     (if \<not> int64 (quantity (updated_row u old)) then Inl OverflowError
      else if name (updated_row u old)
                \<in> set (map name (filter (\<lambda>r. product_id r \<noteq> pid) db))
      then Inl IntegrityError
      else Inr (updated_row u old,
             map (\<lambda>r. if product_id r = pid then updated_row u old else r) db))"
    using updated_row_eq [of u old] id
    by (simp add: update_commit_def Let_def)
  show ?thesis
    unfolding update_product_def
    by (simp add: assms(1) valid_price_guard [OF assms(2)] valid_quantity_guard [OF assms(2)]
        valid_setattr [OF assms(2)] uc)
qed






text \<open>
  C5, as the code has it. An update request that supplies a price of 0 or less does not
  pass \<open>Field(None, gt=0)\<close> of \<open>ProductUpdate\<close>: it is answered 422 before the handler
  runs and the table is unchanged. The handler's own guard, which answers 400 with the
  detail \<open>Price must be greater than 0\<close> and leaves the table unchanged too, is what a
  payload with such a price meets when \<open>update_product\<close> is called with it on a stored
  row (whose id, being stored, fits 64 bits).
\<close>

theorem update_price_nonpositive:
  assumes "upd_price u = Supplied (Some v)" and "v \<le> 0"
  shows "route_update pid u db = (Inl RequestValidationError, db)
         \<and> http_status RequestValidationError = Some 422
         \<and> (pid \<in> set (map product_id db) \<longrightarrow>
              update_product pid u db =
                (Inl (if int64 pid then HTTPException 400 ''Price must be greater than 0''
                      else OverflowError), db))"
proof -
  have "\<not> ProductUpdate_valid u"
    using assms by (simp add: ProductUpdate_valid_def)
  then have 1: "route_update pid u db = (Inl RequestValidationError, db)"
    by (simp add: route_update_def)
  have g: "price_guard (upd_price u) = Inr True"
    using assms by (simp add: price_guard_def)
  have 2: "update_product pid u db =
      (Inl (if int64 pid then HTTPException 400 ''Price must be greater than 0''
            else OverflowError), db)"
    if "pid \<in> set (map product_id db)"
  proof (cases "int64 pid")
    case True
    from query_first_stored [OF True that] obtain r
      where "query_first pid db = Inr (Some r)" by blast
    with g True show ?thesis by (simp add: update_product_def)
  next
    case False
    then show ?thesis by (simp add: update_product_def query_first_wide)
  qed
  from 1 2 show ?thesis by simp
qed

theorem update_price_nonpositive_witness:
  "upd_price (no_update\<lparr>upd_price := Supplied (Some 0)\<rparr>) = Supplied (Some 0) \<and> (0::rat) \<le> 0
   \<and> 2 \<in> set (map product_id shelf)
   \<and> route_update 2 (no_update\<lparr>upd_price := Supplied (Some 0)\<rparr>) shelf =
        (Inl RequestValidationError, shelf)
   \<and> update_product 2 (no_update\<lparr>upd_price := Supplied (Some 0)\<rparr>) shelf =
        (Inl (HTTPException 400 ''Price must be greater than 0''), shelf)"
  using update_price_nonpositive [of "no_update\<lparr>upd_price := Supplied (Some 0)\<rparr>" 0 2 shelf]
  by (simp add: shelf_def no_update_def int64_def)

text \<open>
  C5 as stated expects the detail \<open>Price must be greater than 0\<close> with status 400 for
  the request. The request with price \<open>-1\<close> for the stored row 1 ends in the validation
  failure instead.
\<close>

theorem update_price_nonpositive_counterexample:
  "query_first 1 shelf = Inr (Some (shelf ! 0))
   \<and> route_update 1 (no_update\<lparr>upd_price := Supplied (Some (- 1))\<rparr>) shelf =
        (Inl RequestValidationError, shelf)
   \<and> RequestValidationError \<noteq> HTTPException 400 ''Price must be greater than 0''"
  by (simp add: shelf_def no_update_def query_first_def int64_def route_update_def
      ProductUpdate_valid_def)

subsection \<open>Delete and get\<close>

text \<open>
  For an id that fits 64 bits: deleting an id that a stored row has answers
  \<open>Product deleted successfully\<close> and leaves the table without the rows of that id,
  all other rows kept, and a get of the same id on that table answers 404 with the
  detail \<open>Product not found\<close>; deleting an id that no stored row has answers 404 with
  the same detail and leaves the table unchanged.
\<close>

lemma delete_product_then_get:
  assumes "int64 pid"
  shows "(pid \<in> set (map product_id db) \<longrightarrow>
            route_delete pid db =
              (Inr ''Product deleted successfully'', filter (\<lambda>r. product_id r \<noteq> pid) db)
            \<and> route_get pid (snd (route_delete pid db)) =
                Inl (HTTPException 404 ''Product not found''))
         \<and> (pid \<notin> set (map product_id db) \<longrightarrow>
            route_delete pid db = (Inl (HTTPException 404 ''Product not found''), db))"
proof (cases "pid \<in> set (map product_id db)")
  case False
  with assms have "query_first pid db = Inr None" by (simp add: query_first_None)
  with False show ?thesis by (simp add: route_delete_def delete_product_def)
next
  case True
  from query_first_stored [OF assms True] obtain r
    where r: "query_first pid db = Inr (Some r)" by blast
  have "pid \<notin> set (map product_id (filter (\<lambda>r. product_id r \<noteq> pid) db))"
    by auto
  with assms have "query_first pid (filter (\<lambda>r. product_id r \<noteq> pid) db) = Inr None"
    by (simp only: query_first_None) simp
  with r True show ?thesis
    by (simp add: route_delete_def delete_product_def delete_commit_def route_get_def
        get_product_def serialize_response_def)
qed

text \<open>
  C8 fails on the code. The id \<open>2^63\<close>, which no row of \<open>shelf\<close> has, does not fit the
  parameter of the \<open>SELECT\<close> that \<open>delete_product\<close> and \<open>get_product\<close> start with: the
  driver raises \<open>OverflowError\<close>, which is not the \<open>ValueError\<close> the handlers catch, and
  the request is not answered \<open>Product not found\<close>.
\<close>

theorem delete_wide_id:
  "2 ^ 63 \<notin> set (map product_id shelf)
   \<and> route_delete (2 ^ 63) shelf = (Inl OverflowError, shelf)
   \<and> route_get (2 ^ 63) shelf = Inl OverflowError
   \<and> http_status OverflowError = None
   \<and> OverflowError \<noteq> HTTPException 404 ''Product not found''"
  by (simp add: shelf_def route_delete_def delete_product_def route_get_def get_product_def
      query_first_def int64_def serialize_response_def)

subsection \<open>List\<close>

text \<open>
  The handler \<open>list_products\<close> with a filter returns exactly the rows whose price is at
  least the filter, in table order, and without a filter every row; neither ends in an
  error, and when no row qualifies the result is the empty list.
\<close>

lemma list_products_filter:
  "list_products (Some x) db = Inr (filter (\<lambda>r. x \<le> price r) db)
   \<and> list_products None db = Inr db"
  by (simp add: list_products_def Let_def)

text \<open>
  The route answers with what the handler returns when the filter passes
  \<open>Query(None, ge=0)\<close> and every returned row passes the response model.
\<close>

lemma route_list_valid:
  assumes "price_gte_valid f" and "list_products f db = Inr rows"
    and "list_all ProductResponse_valid rows"
  shows "route_list f db = Inr rows"
  using assms by (simp add: route_list_def)

text \<open>
  C9 fails on the code. After the first request of \<open>test_get_product\<close> the table holds
  a row without description and category. \<open>list_products\<close> returns it, with and
  without a filter it meets, but the row does not pass \<open>list[ProductResponse]\<close>: the
  list request ends in the validation failure of the response, an error, where every
  record should be returned.
\<close>

theorem list_null_description:
  "snd (route_create another []) =
     [\<lparr>name = ''Another Product'', price = 599/100, quantity = 20,
        description = None, category = None, product_id = 1\<rparr>]
   \<and> list_products None (snd (route_create another [])) =
        Inr [\<lparr>name = ''Another Product'', price = 599/100, quantity = 20,
               description = None, category = None, product_id = 1\<rparr>]
   \<and> route_list None (snd (route_create another [])) = Inl ResponseValidationError
   \<and> route_list (Some 5) (snd (route_create another [])) = Inl ResponseValidationError
   \<and> http_status ResponseValidationError = None"
  by (simp add: another_def route_create_def ProductCreate_valid_def create_product_def
      insert_commit_def next_id_def int64_def Let_def list_products_def route_list_def
      price_gte_valid_def ProductResponse_valid_def)

subsection \<open>Reachable tables\<close>

text \<open>
  Every request keeps the constraints \<open>table_ok\<close>: a create request appends a row with
  a fresh id, a new name and validated price and quantity; an update request replaces
  the rows of one id by a row whose name no row of another id has and whose price and
  quantity are validated or the old ones; a delete request removes rows. So every table
  that a run of requests reaches from the empty table has distinct ids, distinct names,
  prices above 0 and quantities of at least 0.
\<close>

lemma distinct_names_replace:
  assumes "distinct (map product_id db)" and "distinct (map name db)"
    and "name r' \<notin> set (map name (filter (\<lambda>r. product_id r \<noteq> pid) db))"
  shows "distinct (map name (map (\<lambda>r. if product_id r = pid then r' else r) db))"
  using assms
proof (induction db)
  case Nil
  then show ?case by simp
next
  case (Cons x xs)
  show ?case
  proof (cases "product_id x = pid")
    case True
    with Cons.prems(1) have "pid \<notin> product_id ` set xs" by simp
    then have others: "\<forall>r\<in>set xs. product_id r \<noteq> pid" by blast
    then have same: "map (\<lambda>r. if product_id r = pid then r' else r) xs = xs"
      by (simp add: map_idI)
    from others have "filter (\<lambda>r. product_id r \<noteq> pid) xs = xs" by simp
    with Cons.prems(3) True have "name r' \<notin> set (map name xs)" by simp
    with Cons.prems(2) True same show ?thesis by simp
  next
    case False
    from Cons.prems False
    have "distinct (map product_id xs)" and "distinct (map name xs)"
      and "name r' \<notin> set (map name (filter (\<lambda>r. product_id r \<noteq> pid) xs))"
      by simp_all
    then have ih: "distinct (map name (map (\<lambda>r. if product_id r = pid then r' else r) xs))"
      by (rule Cons.IH)
    from Cons.prems(3) False have ne: "name x \<noteq> name r'" by auto
    have "name x \<notin> set (map name (map (\<lambda>r. if product_id r = pid then r' else r) xs))"
    proof
      assume "name x \<in> set (map name (map (\<lambda>r. if product_id r = pid then r' else r) xs))"
      then obtain y where y: "y \<in> set xs"
        and eq: "name x = name (if product_id y = pid then r' else y)"
        by auto
      show False
      proof (cases "product_id y = pid")
        case True
        with eq ne show False by simp
      next
        case False
        with eq y have "name x \<in> name ` set xs" by auto
        with Cons.prems(2) show False by simp
      qed
    qed
    with ih False show ?thesis by simp
  qed
qed

lemma map_id_replace:
  "product_id r' = pid \<Longrightarrow>
   map product_id (map (\<lambda>r. if product_id r = pid then r' else r) db) = map product_id db"
  by (induction db) auto

lemma create_table_ok:
  assumes "table_ok db"
  shows "table_ok (snd (route_create p db))"
proof (cases "ProductCreate_valid p \<and> name p \<noteq> [] \<and> int64 (quantity p)
    \<and> name p \<notin> set (map name db)")
  case False
  with assms show ?thesis
    by (auto simp: route_create_def create_product_def insert_commit_def)
next
  case True
  then have "snd (route_create p db) =
      db @ [\<lparr>name = name p, price = price p, quantity = quantity p,
             description = description p, category = category p,
             product_id = next_id db\<rparr>]"
    by (simp add: route_create_def create_product_def insert_commit_def Let_def)
  with assms True next_id_fresh [of db] show ?thesis
    by (simp add: table_ok_def ProductCreate_valid_def)
qed

lemma updated_row_bounds:
  assumes "ProductUpdate_valid u" and "0 < price old" and "0 \<le> quantity old"
  shows "0 < price (updated_row u old) \<and> 0 \<le> quantity (updated_row u old)"
  using assms
  by (auto simp: ProductUpdate_valid_def updated_row_def split: supplied.splits option.splits)

lemma update_table_ok:
  assumes "table_ok db"
  shows "table_ok (snd (route_update pid u db))"
proof (cases "ProductUpdate_valid u")
  case False
  with assms show ?thesis by (simp add: route_update_def)
next
  case True
  show ?thesis
  proof (cases "query_first pid db")
    case (Inl e)
    with assms True show ?thesis by (simp add: route_update_def update_product_def)
  next
    case (Inr found)
    show ?thesis
    proof (cases found)
      case None
      with Inr assms True show ?thesis by (simp add: route_update_def update_product_def)
    next
      case (Some old)
      with Inr have q: "query_first pid db = Inr (Some old)" by simp
      let ?new = "updated_row u old"
      show ?thesis
      proof (cases "int64 (quantity ?new)
          \<and> name ?new \<notin> set (map name (filter (\<lambda>r. product_id r \<noteq> pid) db))")
        case False
        with assms True show ?thesis
          by (auto simp: route_update_def update_product_valid [OF q True])
      next
        case ok: True
        then have tab: "snd (route_update pid u db) =
            map (\<lambda>r. if product_id r = pid then ?new else r) db"
          using True by (simp add: route_update_def update_product_valid [OF q True])
        from query_first_Some [OF q] have mem: "old \<in> set db" and oid: "product_id old = pid"
          by simp_all
        from mem assms have "0 < price old" "0 \<le> quantity old"
          by (auto simp: table_ok_def list_all_iff)
        with True have b: "0 < price ?new \<and> 0 \<le> quantity ?new"
          by (rule updated_row_bounds)
        have nid: "product_id ?new = pid"
          using oid by (simp add: updated_row_def)
        have ids: "map product_id (map (\<lambda>r. if product_id r = pid then ?new else r) db)
            = map product_id db"
          using nid by (rule map_id_replace)
        have names: "distinct (map name (map (\<lambda>r. if product_id r = pid then ?new else r) db))"
          using assms ok by (intro distinct_names_replace) (simp_all add: table_ok_def)
        have vals: "list_all (\<lambda>r. 0 < price r \<and> 0 \<le> quantity r \<and> int64 (quantity r))
            (map (\<lambda>r. if product_id r = pid then ?new else r) db)"
          using assms b ok by (auto simp: table_ok_def list_all_iff)
        from assms have "distinct (map product_id db)" by (simp add: table_ok_def)
        with ids have "distinct (map product_id
            (map (\<lambda>r. if product_id r = pid then ?new else r) db))"
          by (simp only:)
        with names vals show ?thesis
          unfolding tab table_ok_def by blast
      qed
    qed
  qed
qed

lemma delete_table_ok:
  assumes "table_ok db"
  shows "table_ok (snd (route_delete pid db))"
  using assms
  by (auto simp: route_delete_def delete_product_def delete_commit_def table_ok_def
      distinct_map_filter list_all_iff split: sum.splits option.splits)

lemma step_table_ok: "table_ok db \<Longrightarrow> table_ok (step req db)"
  by (cases req) (simp_all add: create_table_ok update_table_ok delete_table_ok)

lemma run_table_ok: "table_ok db \<Longrightarrow> table_ok (run reqs db)"
  unfolding run_def by (induction reqs arbitrary: db) (simp_all add: step_table_ok)

lemma reachable_table_ok: "table_ok (run reqs [])"
  by (rule run_table_ok) (simp add: table_ok_def)

text \<open>
  C4 fails on the code. \<open>create_product\<close> refuses the empty name, \<open>update_product\<close>
  has no such test: after creating \<open>Widget\<close>, the update of row 1 with the name
  \<open>""\<close> succeeds, and the table then holds a row whose name is empty.
\<close>

theorem update_to_empty_name:
  "run [Create widget, Update 1 (no_update\<lparr>upd_name := Supplied (Some [])\<rparr>)] [] =
     [\<lparr>name = [], price = 999/100, quantity = 5, description = Some ''A widget'',
        category = Some ''Tools'', product_id = 1\<rparr>]
   \<and> failure (Update 1 (no_update\<lparr>upd_name := Supplied (Some [])\<rparr>)) (run [Create widget] [])
       = None
   \<and> failure (Create (widget\<lparr>name := []\<rparr>)) [] =
       Some (HTTPException 400 ''Product name is required'')"
  by (simp add: run_def widget_def no_update_def route_create_def ProductCreate_valid_def
      create_product_def insert_commit_def next_id_def int64_def route_update_def
      ProductUpdate_valid_def update_product_def query_first_def price_guard_def
      quantity_guard_def update_commit_def setattr_col_def serialize_response_def
      ProductResponse_valid_def Let_def)

subsection \<open>Failures without an error response\<close>

text \<open>
  The failures of the five routes that have no error response are \<open>OverflowError\<close> and
  the validation failure of the response. \<open>IntegrityError\<close> is caught where it is
  raised, and the \<open>TypeError\<close> of lines 105 and 107 needs a price or quantity that is
  \<open>None\<close>, which the request model refuses.
\<close>

lemma serialize_response_unhandled:
  assumes "serialize_response res = Inl e" and "http_status e = None"
    and "\<And>e'. res = Inl e' \<Longrightarrow> http_status e' = None \<Longrightarrow> e' = OverflowError"
  shows "e = OverflowError \<or> e = ResponseValidationError"
  using assms by (cases res) (auto simp: serialize_response_def split: if_splits)

lemma create_product_unhandled:
  assumes "fst (create_product p db) = Inl e" and "http_status e = None"
  shows "e = OverflowError"
  using assms
  by (auto simp: create_product_def insert_commit_def Let_def split: if_splits)

lemma get_product_unhandled:
  assumes "get_product pid db = Inl e" and "http_status e = None"
  shows "e = OverflowError"
  using assms
  by (auto simp: get_product_def query_first_def split: if_splits option.splits)

lemma update_product_unhandled:
  assumes "ProductUpdate_valid u" and "fst (update_product pid u db) = Inl e"
    and "http_status e = None"
  shows "e = OverflowError"
proof (cases "query_first pid db")
  case (Inl e')
  then have "e' = OverflowError" by (auto simp: query_first_def split: if_splits)
  with Inl assms(2) show ?thesis by (simp add: update_product_def)
next
  case (Inr found)
  show ?thesis
  proof (cases found)
    case None
    with Inr assms(2,3) show ?thesis by (auto simp: update_product_def)
  next
    case (Some old)
    with Inr have "query_first pid db = Inr (Some old)" by simp
    from update_product_valid [OF this assms(1)] assms(2,3) show ?thesis
      by (auto split: if_splits)
  qed
qed

lemma delete_product_unhandled:
  assumes "fst (delete_product pid db) = Inl e" and "http_status e = None"
  shows "e = OverflowError"
  using assms
  by (auto simp: delete_product_def query_first_def split: if_splits option.splits)

lemma failure_unhandled:
  assumes "failure req db = Some e" and "http_status e = None"
  shows "e = OverflowError \<or> e = ResponseValidationError"
proof (cases req)
  case (Create p)
  show ?thesis
  proof (cases "ProductCreate_valid p")
    case False
    with Create assms show ?thesis by (auto simp: route_create_def)
  next
    case True
    with Create assms(1) have "serialize_response (fst (create_product p db)) = Inl e"
      by (auto simp: route_create_def split: sum.splits)
    then show ?thesis
      using assms(2) create_product_unhandled by (rule serialize_response_unhandled)
  qed
next
  case (Get pid)
  with assms(1) have "serialize_response (get_product pid db) = Inl e"
    by (auto simp: route_get_def split: sum.splits)
  then show ?thesis
    using assms(2) get_product_unhandled by (rule serialize_response_unhandled)
next
  case (Update pid u)
  show ?thesis
  proof (cases "ProductUpdate_valid u")
    case False
    with Update assms show ?thesis by (auto simp: route_update_def)
  next
    case True
    with Update assms(1) have "serialize_response (fst (update_product pid u db)) = Inl e"
      by (auto simp: route_update_def split: sum.splits)
    then show ?thesis
      using assms(2) update_product_unhandled [OF True]
      by (rule serialize_response_unhandled)
  qed
next
  case (Delete pid)
  with assms(1) have "fst (delete_product pid db) = Inl e"
    by (auto simp: route_delete_def split: sum.splits)
  from delete_product_unhandled [OF this assms(2)] show ?thesis by simp
next
  case (List f)
  with assms show ?thesis
    by (auto simp: route_list_def list_products_def Let_def split: if_splits sum.splits)
qed

text \<open>
  C10 fails on the code. The first request of \<open>test_get_product\<close> is answered by no
  error response: the handler returns the committed row, and the validation of the
  response, which runs outside the handler's \<open>try\<close>, fails on the missing description.
  A get of the id \<open>2^63\<close> raises \<open>OverflowError\<close> in the handler, which catches
  \<open>ValueError\<close> only. The update with an explicit \<open>null\<close> for price or quantity, in
  contrast, is answered 422 by the request model.
\<close>

theorem unhandled_failures:
  "failure (Create another) [] = Some ResponseValidationError
   \<and> http_status ResponseValidationError = None
   \<and> failure (Get (2 ^ 63)) shelf = Some OverflowError
   \<and> failure (Delete (2 ^ 63)) shelf = Some OverflowError
   \<and> failure (Update 1 (no_update\<lparr>upd_quantity := Supplied (Some (2 ^ 63))\<rparr>)) shelf
       = Some OverflowError
   \<and> http_status OverflowError = None
   \<and> failure (Update 1 (no_update\<lparr>upd_price := Supplied None\<rparr>)) shelf
       = Some RequestValidationError
   \<and> failure (Update 1 (no_update\<lparr>upd_quantity := Supplied None\<rparr>)) shelf
       = Some RequestValidationError
   \<and> http_status RequestValidationError = Some 422"
  by (simp add: another_def shelf_def no_update_def route_create_def ProductCreate_valid_def
      create_product_def insert_commit_def next_id_def int64_def Let_def
      serialize_response_def ProductResponse_valid_def route_get_def get_product_def
      query_first_def route_delete_def delete_product_def route_update_def
      ProductUpdate_valid_def update_product_def price_guard_def quantity_guard_def
      update_commit_def setattr_col_def)

end
